theory Spec2Isabelle
  imports Complex_Main "HOL-Library.Multiset"
begin

section \<open>Exceptions\<close>

text \<open>
  \<open>process_csv\<close> of \<open>ml_runner.py\<close> raises \<open>ValueError\<close> at its two validation
  gates, lets the exceptions of pandas and scikit-learn pass, and catches all of them in
  one \<open>except Exception\<close> clause. An exception is a value here; \<open>str\<close> is Python's
  \<open>str(e)\<close>, the message (for a \<open>KeyError\<close> the quoted key).
\<close>

datatype exn =
    ValueError string
  | KeyError string
  | IndexError string
  | Exception string
  | OtherException string string

fun str :: "exn \<Rightarrow> string" where
  "str (ValueError m) = m"
| "str (KeyError k) = [CHR 0x27] @ k @ [CHR 0x27]"
| "str (IndexError m) = m"
| "str (Exception m) = m"
| "str (OtherException c m) = m"

definition bind :: "exn + 'a \<Rightarrow> ('a \<Rightarrow> exn + 'b) \<Rightarrow> exn + 'b" where
  "bind m f = (case m of Inl e \<Rightarrow> Inl e | Inr x \<Rightarrow> f x)"

section \<open>The pandas DataFrame\<close>

text \<open>
  A DataFrame is an index of row labels and a sequence of labelled, typed columns over
  these rows; its length is the length of the index. \<open>read_csv\<close> labels the rows
  0, 1, 2, ... and every selection of rows keeps the labels of the rows it selects.
  A column of a numeric dtype (\<open>int64\<close>, \<open>float64\<close>) holds numbers, a column of any
  other dtype holds objects (strings); \<open>None\<close> is a missing value (NaN).
  Numbers are modelled as reals. A Series is modelled by its column of values.
\<close>

datatype column =
    NumericCol "real option list"
  | ObjectCol "string option list"

record dataframe =
  index :: "nat list"
  cols :: "(string \<times> column) list"

definition nrows :: "dataframe \<Rightarrow> nat" where
  "nrows df = length (index df)"

definition len :: "dataframe \<Rightarrow> nat" where
  "len df = nrows df"

fun notna :: "column \<Rightarrow> bool list" where
  "notna (NumericCol xs) = map (\<lambda>x. x \<noteq> None) xs"
| "notna (ObjectCol xs) = map (\<lambda>x. x \<noteq> None) xs"

fun take_pos :: "nat list \<Rightarrow> column \<Rightarrow> column" where
  "take_pos ind (NumericCol xs) = NumericCol (map (\<lambda>i. xs ! i) ind)"
| "take_pos ind (ObjectCol xs) = ObjectCol (map (\<lambda>i. xs ! i) ind)"

definition take_rows :: "dataframe \<Rightarrow> nat list \<Rightarrow> dataframe" where
  "take_rows df ind =
     \<lparr>index = map (\<lambda>i. index df ! i) ind,
      cols = map (\<lambda>(name, c). (name, take_pos ind c)) (cols df)\<rparr>"

text \<open>
  \<open>df.dropna()\<close>: the rows in which every column has a value are kept, in order;
  labels and dtypes of the columns are unchanged.
\<close>

definition dropna :: "dataframe \<Rightarrow> dataframe" where
  "dropna df =
     take_rows df
       (filter (\<lambda>i. list_all (\<lambda>(name, c). notna c ! i) (cols df)) [0..<nrows df])"

fun is_number :: "column \<Rightarrow> bool" where
  "is_number (NumericCol xs) = True"
| "is_number (ObjectCol xs) = False"

text \<open>\<open>df.select_dtypes(include=[np.number])\<close> and \<open>df.columns.tolist()\<close>.\<close>

definition select_dtypes_number :: "dataframe \<Rightarrow> dataframe" where
  "select_dtypes_number df = df\<lparr>cols := filter (\<lambda>(name, c). is_number c) (cols df)\<rparr>"

definition columns_tolist :: "dataframe \<Rightarrow> string list" where
  "columns_tolist df = map fst (cols df)"

text \<open>
  \<open>df[labels]\<close> with a list of labels: the columns of each label, in the order of the
  list; a label that is not a column raises \<open>KeyError\<close>. \<open>df[label]\<close> with one label
  is that column (\<open>read_csv\<close> makes the labels unique).
\<close>

definition getitem_list :: "dataframe \<Rightarrow> string list \<Rightarrow> exn + dataframe" where
  "getitem_list df labels =
     (case filter (\<lambda>l. l \<notin> set (columns_tolist df)) labels of
        [] \<Rightarrow> Inr (df\<lparr>cols := concat (map (\<lambda>l. filter (\<lambda>(name, c). name = l) (cols df)) labels)\<rparr>)
      | l # ls \<Rightarrow> Inl (KeyError l))"

definition getitem :: "dataframe \<Rightarrow> string \<Rightarrow> exn + column" where
  "getitem df label =
     (case map_of (cols df) label of
        None \<Rightarrow> Inl (KeyError label)
      | Some c \<Rightarrow> Inr c)"

text \<open>Positional selection \<open>df.iloc[ind]\<close>, which raises \<open>IndexError\<close> out of range.\<close>

definition iloc :: "dataframe \<Rightarrow> nat list \<Rightarrow> exn + dataframe" where
  "iloc df ind =
     (if list_all (\<lambda>i. i < nrows df) ind then Inr (take_rows df ind)
      else Inl (IndexError ''positional indexers are out-of-bounds''))"

fun col_length :: "column \<Rightarrow> nat" where
  "col_length (NumericCol xs) = length xs"
| "col_length (ObjectCol xs) = length xs"

definition iloc_col :: "column \<Rightarrow> nat list \<Rightarrow> exn + column" where
  "iloc_col c ind =
     (if list_all (\<lambda>i. i < col_length c) ind then Inr (take_pos ind c)
      else Inl (IndexError ''positional indexers are out-of-bounds''))"

section \<open>scikit-learn\<close>

subsection \<open>Random state\<close>

text \<open>
  A generator is modelled by what its \<open>permutation(n)\<close> returns on the next call.
  \<open>check_random_state(seed)\<close> is numpy's global generator when the seed is \<open>None\<close>
  and a fresh \<open>RandomState(seed)\<close> when it is an integer. The generators, the CSV
  reader and the least-squares solver are the environment of a run.
\<close>

type_synonym rng = "nat \<Rightarrow> nat list"

record env =
  read_csv :: "string \<Rightarrow> exn + dataframe"
  RandomState :: "nat \<Rightarrow> rng"
  global_rng :: rng
  lstsq :: "real list list \<Rightarrow> real list \<Rightarrow> real list \<times> real"

definition check_random_state :: "env \<Rightarrow> nat option \<Rightarrow> rng" where
  "check_random_state E seed =
     (case seed of None \<Rightarrow> global_rng E | Some s \<Rightarrow> RandomState E s)"

subsection \<open>\<open>train_test_split\<close>\<close>

text \<open>
  \<open>_validate_shuffle_split\<close> with a float \<open>test_size\<close> and no \<open>train_size\<close>:
  \<open>n_test = ceil(test_size * n_samples)\<close> and \<open>n_train = n_samples - n_test\<close>.
  (The double nearest to 0.2 is \<open>0.2 * (1 + 2\<^sup>-\<^sup>5\<^sup>4)\<close>, so the product computed in
  doubles has the ceiling of the exact one for every row count below \<open>2\<^sup>5\<^sup>0\<close>.)
  \<open>ShuffleSplit\<close> then takes the first \<open>n_test\<close> entries of the permutation as the
  test indices and the next \<open>n_train\<close> entries as the train indices, and
  \<open>train_test_split\<close> selects those rows by position. The texts of the library's
  messages are abbreviated.
\<close>

definition validate_shuffle_split :: "nat \<Rightarrow> real \<Rightarrow> exn + nat \<times> nat" where
  "validate_shuffle_split n_samples test_size =
     (if test_size \<le> 0 \<or> test_size \<ge> 1
      then Inl (ValueError ''test_size should be a float in the (0, 1) range'')
      else
        let n_test = nat \<lceil>test_size * real n_samples\<rceil>;
            n_train = n_samples - n_test
        in if n_train = 0
           then Inl (ValueError ''the resulting train set will be empty'')
           else Inr (n_train, n_test))"

definition shuffle_split ::
  "env \<Rightarrow> nat \<Rightarrow> real \<Rightarrow> nat option \<Rightarrow> exn + nat list \<times> nat list" where
  "shuffle_split E n_samples test_size random_state =
     bind (validate_shuffle_split n_samples test_size) (\<lambda>(n_train, n_test).
       let permutation = check_random_state E random_state n_samples;
           ind_test = take n_test permutation;
           ind_train = take n_train (drop n_test permutation)
       in Inr (ind_train, ind_test))"

definition train_test_split ::
  "env \<Rightarrow> dataframe \<Rightarrow> column \<Rightarrow> real \<Rightarrow> nat option
     \<Rightarrow> exn + dataframe \<times> dataframe \<times> column \<times> column" where
  "train_test_split E X y test_size random_state =
     (if col_length y \<noteq> len X
      then Inl (ValueError ''Found input variables with inconsistent numbers of samples'')
      else
        bind (shuffle_split E (len X) test_size random_state) (\<lambda>(train, test).
        bind (iloc X train) (\<lambda>X_train.
        bind (iloc X test) (\<lambda>X_test.
        bind (iloc_col y train) (\<lambda>y_train.
        bind (iloc_col y test) (\<lambda>y_test.
          Inr (X_train, X_test, y_train, y_test)))))))"

subsection \<open>\<open>LinearRegression\<close>\<close>

text \<open>
  \<open>fit\<close> and \<open>predict\<close> validate their input (\<open>check_array\<close>: a float array without
  NaN, one row per sample). The solver is a parameter; a prediction is
  \<open>X @ coef_ + intercept_\<close>.
\<close>

fun to_float :: "column \<Rightarrow> exn + real list" where
  "to_float (NumericCol xs) =
     (case those xs of
        None \<Rightarrow> Inl (ValueError ''Input contains NaN.'')
      | Some v \<Rightarrow> Inr v)"
| "to_float (ObjectCol xs) = Inl (ValueError ''could not convert string to float'')"

fun sequence :: "(exn + 'a) list \<Rightarrow> exn + 'a list" where
  "sequence [] = Inr []"
| "sequence (m # ms) = bind m (\<lambda>x. bind (sequence ms) (\<lambda>xs. Inr (x # xs)))"

definition check_array :: "dataframe \<Rightarrow> exn + real list list" where
  "check_array X =
     bind (sequence (map (\<lambda>(name, c). to_float c) (cols X))) (\<lambda>cs.
       Inr (map (\<lambda>i. map (\<lambda>c. c ! i) cs) [0..<nrows X]))"

definition fit :: "env \<Rightarrow> dataframe \<Rightarrow> column \<Rightarrow> exn + real list \<times> real" where
  "fit E X y =
     bind (check_array X) (\<lambda>Xa.
     bind (to_float y) (\<lambda>ya.
       Inr (lstsq E Xa ya)))"

definition predict :: "real list \<times> real \<Rightarrow> dataframe \<Rightarrow> exn + real list" where
  "predict model X =
     (case model of (coef, intercept) \<Rightarrow>
        bind (check_array X) (\<lambda>Xa.
          Inr (map (\<lambda>row. sum_list (map2 (*) row coef) + intercept) Xa)))"

subsection \<open>Metrics\<close>

text \<open>
  The three metrics validate the pair of vectors (\<open>_check_reg_targets\<close>) and reduce it.
  \<open>r2_score\<close> is NaN on fewer than two samples ("R^2 score is not well-defined with
  less than two samples"); otherwise it is \<open>1 - numerator / denominator\<close> when both are
  non-zero, 0 when only the denominator is zero, and 1 when the numerator is zero.
\<close>

datatype pyfloat = Float real | NaN

definition check_reg_targets :: "column \<Rightarrow> real list \<Rightarrow> exn + real list \<times> real list" where
  "check_reg_targets y_true y_pred =
     bind (to_float y_true) (\<lambda>yt.
       if length yt \<noteq> length y_pred
       then Inl (ValueError ''Found input variables with inconsistent numbers of samples'')
       else if yt = []
       then Inl (ValueError ''Found array with 0 sample(s) while a minimum of 1 is required.'')
       else Inr (yt, y_pred))"

definition average :: "real list \<Rightarrow> real" where
  "average xs = sum_list xs / real (length xs)"

definition mean_absolute_error :: "column \<Rightarrow> real list \<Rightarrow> exn + real" where
  "mean_absolute_error y_true y_pred =
     bind (check_reg_targets y_true y_pred) (\<lambda>(yt, yp).
       Inr (average (map2 (\<lambda>p t. \<bar>p - t\<bar>) yp yt)))"

definition mean_squared_error :: "column \<Rightarrow> real list \<Rightarrow> exn + real" where
  "mean_squared_error y_true y_pred =
     bind (check_reg_targets y_true y_pred) (\<lambda>(yt, yp).
       Inr (average (map2 (\<lambda>t p. (t - p)\<^sup>2) yt yp)))"

definition r2_score :: "column \<Rightarrow> real list \<Rightarrow> exn + pyfloat" where
  "r2_score y_true y_pred =
     bind (check_reg_targets y_true y_pred) (\<lambda>(yt, yp).
       if length yp < 2 then Inr NaN
       else
         let numerator = sum_list (map2 (\<lambda>t p. (t - p)\<^sup>2) yt yp);
             denominator = sum_list (map (\<lambda>t. (t - average yt)\<^sup>2) yt)
         in if numerator \<noteq> 0 \<and> denominator \<noteq> 0
            then Inr (Float (1 - numerator / denominator))
            else if numerator \<noteq> 0 then Inr (Float 0)
            else Inr (Float 1))"

section \<open>The pipeline: \<open>process_csv\<close>\<close>

record dataset_info =
  total_rows :: nat
  rows_after_cleaning :: nat
  feature_columns :: nat
  target_column :: string
  feature_names :: "string list"
  train_size :: nat
  test_size :: nat

record results =
  res_r2_score :: pyfloat
  res_mae :: real
  res_mse :: real
  res_dataset_info :: dataset_info

text \<open>The body of the \<open>try\<close> block, lines 15 to 77.\<close>

definition process_csv_try :: "env \<Rightarrow> string \<Rightarrow> exn + results" where
  "process_csv_try E file_path =
     bind (read_csv E file_path) (\<lambda>df.
       let original_rows = len df;
           df_clean = dropna df;
           numeric_columns = columns_tolist (select_dtypes_number df_clean)
       in
       if length numeric_columns < 2
       then Inl (ValueError
              ''Dataset must have at least 2 numeric columns for regression analysis'')
       else
         bind (getitem_list df_clean numeric_columns) (\<lambda>df_numeric.
           let feature_columns = butlast numeric_columns;
               target_column = last numeric_columns
           in
           bind (getitem_list df_numeric feature_columns) (\<lambda>X.
           bind (getitem df_numeric target_column) (\<lambda>y.
             if len X < 10
             then Inl (ValueError ''Dataset must have at least 10 samples after cleaning'')
             else
               bind (train_test_split E X y 0.2 (Some 42))
                 (\<lambda>(X_train, X_test, y_train, y_test).
               bind (fit E X_train y_train) (\<lambda>model.
               bind (predict model X_test) (\<lambda>y_pred.
               bind (r2_score y_test y_pred) (\<lambda>r2.
               bind (mean_absolute_error y_test y_pred) (\<lambda>mae.
               bind (mean_squared_error y_test y_pred) (\<lambda>mse.
                 Inr \<lparr>res_r2_score = r2, res_mae = mae, res_mse = mse,
                      res_dataset_info =
                        \<lparr>total_rows = original_rows,
                         rows_after_cleaning = len df_clean,
                         feature_columns = length feature_columns,
                         target_column = target_column,
                         feature_names = feature_columns,
                         train_size = len X_train,
                         test_size = len X_test\<rparr>\<rparr>))))))))))"

text \<open>The \<open>except Exception\<close> clause, lines 79 and 80.\<close>

definition process_csv :: "env \<Rightarrow> string \<Rightarrow> exn + results" where
  "process_csv E file_path =
     (case process_csv_try E file_path of
        Inl e \<Rightarrow> Inl (Exception (''ML processing error: '' @ str e))
      | Inr r \<Rightarrow> Inr r)"



section \<open>Example runs\<close>

text \<open>
  Three tables and an environment that reads them, used to run the pipeline on concrete
  inputs: \<open>data.csv\<close> has eleven rows, one of them with a missing value, a text column
  and two numeric columns; \<open>twelve.csv\<close> has twelve complete rows and three numeric
  columns; \<open>small.csv\<close> has three rows and one numeric column. The generator of the
  example returns the indices in descending order, and its solver returns the
  coefficients of the line \<open>y = 2 * x1 + ... + 2 * xk + 1\<close>.
\<close>

definition df0 :: dataframe where
  "df0 = \<lparr>index = [0..<11], cols =
     [(''name'', ObjectCol (map Some [''a'', ''b'', ''c'', ''d'', ''e'', ''f'', ''g'', ''h'', ''i'', ''j'', ''k''])),
      (''x'', NumericCol [Some 0, Some 1, Some 2, None, Some 4, Some 5, Some 6, Some 7, Some 8, Some 9, Some 10]),
      (''y'', NumericCol (map Some [1, 3, 5, 7, 9, 11, 13, 15, 17, 19, 21]))]\<rparr>"

definition df12 :: dataframe where
  "df12 = \<lparr>index = [0..<12], cols =
     [(''a'', NumericCol (map Some [0, 1, 2, 3, 4, 5, 6, 7, 8, 9, 10, 11])),
      (''b'', NumericCol (map Some [1, 0, 1, 0, 1, 0, 1, 0, 1, 0, 1, 0])),
      (''c'', NumericCol (map Some [3, 3, 7, 7, 11, 11, 15, 15, 19, 19, 23, 23]))]\<rparr>"

definition df_small :: dataframe where
  "df_small = \<lparr>index = [0..<3], cols =
     [(''name'', ObjectCol [Some ''a'', Some ''b'', Some ''c'']),
      (''x'', NumericCol [Some 1, Some 2, Some 3])]\<rparr>"

definition E0 :: env where
  "E0 = \<lparr>read_csv = (\<lambda>p.
            if p = ''data.csv'' then Inr df0
            else if p = ''twelve.csv'' then Inr df12
            else if p = ''small.csv'' then Inr df_small
            else Inl (OtherException ''FileNotFoundError'' ''No such file or directory'')),
         RandomState = (\<lambda>seed n. rev [0..<n]),
         global_rng = (\<lambda>n. [0..<n]),
         lstsq = (\<lambda>X y. (map (\<lambda>v. 2) (hd X), 1))\<rparr>"

definition r0 :: results where
  "r0 = \<lparr>res_r2_score = Float 1, res_mae = 0, res_mse = 0,
        res_dataset_info =
          \<lparr>total_rows = 11, rows_after_cleaning = 10, feature_columns = 1,
             target_column = ''y'', feature_names = [''x''], train_size = 8,
             test_size = 2\<rparr>\<rparr>"

definition r12 :: results where
  "r12 = \<lparr>res_r2_score = Float 1, res_mae = 0, res_mse = 0,
        res_dataset_info =
          \<lparr>total_rows = 12, rows_after_cleaning = 12, feature_columns = 2,
             target_column = ''c'', feature_names = [''a'', ''b''], train_size = 9,
             test_size = 3\<rparr>\<rparr>"

text \<open>
  The values of the stages in the run on \<open>data.csv\<close>: the numeric frame, \<open>X\<close> and
  \<open>y\<close>, and the four parts of the split (test rows 10 and 9, the other eight rows for
  training).
\<close>

definition df_numeric0 :: dataframe where
  "df_numeric0 = \<lparr>index = [0, 1, 2, 4, 5, 6, 7, 8, 9, 10], cols =
     [(''x'', NumericCol (map Some [0, 1, 2, 4, 5, 6, 7, 8, 9, 10])),
      (''y'', NumericCol (map Some [1, 3, 5, 9, 11, 13, 15, 17, 19, 21]))]\<rparr>"

definition X0 :: dataframe where
  "X0 = \<lparr>index = [0, 1, 2, 4, 5, 6, 7, 8, 9, 10], cols =
     [(''x'', NumericCol (map Some [0, 1, 2, 4, 5, 6, 7, 8, 9, 10]))]\<rparr>"

definition y0 :: column where
  "y0 = NumericCol (map Some [1, 3, 5, 9, 11, 13, 15, 17, 19, 21])"

definition X_train0 :: dataframe where
  "X_train0 = \<lparr>index = [8, 7, 6, 5, 4, 2, 1, 0], cols =
     [(''x'', NumericCol (map Some [8, 7, 6, 5, 4, 2, 1, 0]))]\<rparr>"

definition X_test0 :: dataframe where
  "X_test0 = \<lparr>index = [10, 9], cols = [(''x'', NumericCol (map Some [10, 9]))]\<rparr>"

definition y_train0 :: column where
  "y_train0 = NumericCol (map Some [17, 15, 13, 11, 9, 5, 3, 1])"

definition y_test0 :: column where
  "y_test0 = NumericCol (map Some [21, 19])"



section \<open>Lemmas about the stages\<close>

subsection \<open>Sequencing and the DataFrame operations\<close>

lemma bind_Inl [simp]: "bind (Inl e) f = Inl e"
  by (simp add: bind_def)

lemma bind_Inr [simp]: "bind (Inr x) f = f x"
  by (simp add: bind_def)

lemma bind_eq_Inr: "bind m f = Inr r \<longleftrightarrow> (\<exists>x. m = Inr x \<and> f x = Inr r)"
  by (cases m) simp_all

lemma bind_eq_Inl: "bind m f = Inl e \<longleftrightarrow> m = Inl e \<or> (\<exists>x. m = Inr x \<and> f x = Inl e)"
  by (cases m) simp_all

lemma nrows_take_rows [simp]: "nrows (take_rows df ind) = length ind"
  by (simp add: take_rows_def nrows_def)

lemma nrows_cols_update [simp]: "nrows (df\<lparr>cols := cs\<rparr>) = nrows df"
  by (simp add: nrows_def)

lemma is_number_take_pos [simp]: "is_number (take_pos ind c) = is_number c"
  by (cases c) simp_all

lemma columns_tolist_take_rows [simp]: "columns_tolist (take_rows df ind) = columns_tolist df"
  by (simp add: columns_tolist_def take_rows_def case_prod_unfold comp_def)

lemma numeric_take_rows:
  "columns_tolist (select_dtypes_number (take_rows df ind)) = columns_tolist (select_dtypes_number df)"
  by (simp add: columns_tolist_def select_dtypes_number_def take_rows_def filter_map
      case_prod_unfold comp_def)

lemma numeric_dropna:
  "columns_tolist (select_dtypes_number (dropna df)) = columns_tolist (select_dtypes_number df)"
  by (simp add: dropna_def numeric_take_rows)

lemma numeric_labels:
  "columns_tolist (select_dtypes_number df) = map fst (filter (\<lambda>(name, c). is_number c) (cols df))"
  by (simp add: columns_tolist_def select_dtypes_number_def)

lemma nrows_dropna_le: "nrows (dropna df) \<le> nrows df"
proof -
  have "length (filter P [0..<nrows df]) \<le> nrows df" for P
    using length_filter_le [of P "[0..<nrows df]"] by simp
  then show ?thesis by (simp add: dropna_def)
qed

lemma numeric_subset: "set (columns_tolist (select_dtypes_number df)) \<subseteq> set (columns_tolist df)"
  by (auto simp: columns_tolist_def select_dtypes_number_def)

lemma getitem_list_ok:
  assumes "set labels \<subseteq> set (columns_tolist df)"
  shows "getitem_list df labels =
    Inr (df\<lparr>cols := concat (map (\<lambda>l. filter (\<lambda>(name, c). name = l) (cols df)) labels)\<rparr>)"
proof -
  have "filter (\<lambda>l. l \<notin> set (columns_tolist df)) labels = []"
    using assms by (auto simp: filter_empty_conv)
  then show ?thesis by (simp add: getitem_list_def)
qed

lemma labels_getitem_list:
  assumes "set labels \<subseteq> set (columns_tolist df)"
  shows "set (columns_tolist (df\<lparr>cols := concat (map (\<lambda>l. filter (\<lambda>(name, c). name = l) (cols df)) labels)\<rparr>)) = set labels"
  using assms by (force simp: columns_tolist_def)

lemma getitem_ok:
  assumes "label \<in> set (columns_tolist df)"
  shows "\<exists>c. getitem df label = Inr c"
proof -
  from assms have "map_of (cols df) label \<noteq> None"
    by (simp add: columns_tolist_def map_of_eq_None_iff)
  then show ?thesis by (auto simp: getitem_def)
qed

text \<open>
  The three column selections of lines 30 to 38 never raise: every label they ask for is
  a label of the frame they ask it from.
\<close>

lemma getitems_ok:
  assumes nc: "nc = columns_tolist (select_dtypes_number dfc)" and len: "2 \<le> length nc"
  shows "\<exists>df_numeric X y.
           getitem_list dfc nc = Inr df_numeric \<and>
           getitem_list df_numeric (butlast nc) = Inr X \<and>
           getitem df_numeric (last nc) = Inr y \<and>
           nrows X = nrows dfc"
proof -
  define df_numeric where
    "df_numeric = dfc\<lparr>cols := concat (map (\<lambda>l. filter (\<lambda>(name, c). name = l) (cols dfc)) nc)\<rparr>"
  have sub: "set nc \<subseteq> set (columns_tolist dfc)"
    unfolding nc by (rule numeric_subset)
  have g1: "getitem_list dfc nc = Inr df_numeric"
    unfolding df_numeric_def by (rule getitem_list_ok [OF sub])
  have labels: "set (columns_tolist df_numeric) = set nc"
    unfolding df_numeric_def by (rule labels_getitem_list [OF sub])
  from len have ne: "nc \<noteq> []" by auto
  have "set (butlast nc) \<subseteq> set (columns_tolist df_numeric)"
    using labels in_set_butlastD by fastforce
  from getitem_list_ok [OF this] obtain X where
    g2: "getitem_list df_numeric (butlast nc) = Inr X" and nX: "nrows X = nrows df_numeric"
    by simp
  have "last nc \<in> set (columns_tolist df_numeric)"
    using labels ne by simp
  from getitem_ok [OF this] obtain y where g3: "getitem df_numeric (last nc) = Inr y" ..
  have "nrows df_numeric = nrows dfc" by (simp add: df_numeric_def)
  with g1 g2 g3 nX show ?thesis by simp
qed

subsection \<open>Messages of the library exceptions\<close>

text \<open>
  No exception of the modelled library code has a message that starts with the letter
  of the two gate messages, so none can be taken for a gate.
\<close>

lemma lib_validate: "validate_shuffle_split n ts = Inl e \<Longrightarrow> hd (str e) \<noteq> CHR ''D''"
  by (auto simp: validate_shuffle_split_def Let_def split: if_splits)

lemma lib_shuffle_split: "shuffle_split E n ts rs = Inl e \<Longrightarrow> hd (str e) \<noteq> CHR ''D''"
  by (auto simp: shuffle_split_def Let_def bind_eq_Inl dest: lib_validate)

lemma lib_iloc: "iloc X ind = Inl e \<Longrightarrow> hd (str e) \<noteq> CHR ''D''"
  by (auto simp: iloc_def split: if_splits)

lemma lib_iloc_col: "iloc_col c ind = Inl e \<Longrightarrow> hd (str e) \<noteq> CHR ''D''"
  by (auto simp: iloc_col_def split: if_splits)

lemma lib_train_test_split:
  "train_test_split E X y ts rs = Inl e \<Longrightarrow> hd (str e) \<noteq> CHR ''D''"
  by (auto simp: train_test_split_def bind_eq_Inl split: if_splits
      dest: lib_shuffle_split lib_iloc lib_iloc_col)

lemma lib_to_float: "to_float c = Inl e \<Longrightarrow> hd (str e) \<noteq> CHR ''D''"
  by (cases c) (auto split: option.splits)

lemma lib_sequence:
  "sequence (map (\<lambda>(name, c). to_float c) cs) = Inl e \<Longrightarrow> hd (str e) \<noteq> CHR ''D''"
  by (induction cs) (auto simp: bind_eq_Inl dest: lib_to_float)

lemma lib_check_array: "check_array X = Inl e \<Longrightarrow> hd (str e) \<noteq> CHR ''D''"
  by (auto simp: check_array_def bind_eq_Inl dest: lib_sequence)

lemma lib_fit: "fit E X y = Inl e \<Longrightarrow> hd (str e) \<noteq> CHR ''D''"
  by (auto simp: fit_def bind_eq_Inl dest: lib_check_array lib_to_float)

lemma lib_predict: "predict model X = Inl e \<Longrightarrow> hd (str e) \<noteq> CHR ''D''"
  by (auto simp: predict_def bind_eq_Inl dest: lib_check_array split: prod.splits)

lemma lib_check_reg_targets: "check_reg_targets yt yp = Inl e \<Longrightarrow> hd (str e) \<noteq> CHR ''D''"
  by (auto simp: check_reg_targets_def bind_eq_Inl dest: lib_to_float split: if_splits)

lemma lib_r2_score: "r2_score yt yp = Inl e \<Longrightarrow> hd (str e) \<noteq> CHR ''D''"
  by (auto simp: r2_score_def bind_eq_Inl Let_def dest: lib_check_reg_targets split: if_splits)

lemma lib_mean_absolute_error: "mean_absolute_error yt yp = Inl e \<Longrightarrow> hd (str e) \<noteq> CHR ''D''"
  by (auto simp: mean_absolute_error_def bind_eq_Inl dest: lib_check_reg_targets)

lemma lib_mean_squared_error: "mean_squared_error yt yp = Inl e \<Longrightarrow> hd (str e) \<noteq> CHR ''D''"
  by (auto simp: mean_squared_error_def bind_eq_Inl dest: lib_check_reg_targets)

subsection \<open>The try block, case by case\<close>

lemma try_gate_columns:
  assumes "read_csv E p = Inr df"
    and "length (columns_tolist (select_dtypes_number (dropna df))) < 2"
  shows "process_csv_try E p =
    Inl (ValueError ''Dataset must have at least 2 numeric columns for regression analysis'')"
  using assms by (simp add: process_csv_try_def Let_def)

lemma try_gate_samples:
  assumes read: "read_csv E p = Inr df"
    and len: "2 \<le> length (columns_tolist (select_dtypes_number (dropna df)))"
    and rows: "nrows (dropna df) < 10"
  shows "process_csv_try E p =
    Inl (ValueError ''Dataset must have at least 10 samples after cleaning'')"
proof -
  from getitems_ok [OF refl len] obtain df_numeric X y where
    "getitem_list (dropna df) (columns_tolist (select_dtypes_number (dropna df))) = Inr df_numeric"
    "getitem_list df_numeric (butlast (columns_tolist (select_dtypes_number (dropna df)))) = Inr X"
    "getitem df_numeric (last (columns_tolist (select_dtypes_number (dropna df)))) = Inr y"
    "nrows X = nrows (dropna df)"
    by blast
  with read len rows show ?thesis
    by (simp add: process_csv_try_def Let_def len_def)
qed

lemma try_library_error:
  assumes read: "read_csv E p = Inr df"
    and len: "2 \<le> length (columns_tolist (select_dtypes_number (dropna df)))"
    and rows: "10 \<le> nrows (dropna df)"
    and err: "process_csv_try E p = Inl e"
  shows "hd (str e) \<noteq> CHR ''D''"
proof -
  from getitems_ok [OF refl len] obtain df_numeric X y where
    "getitem_list (dropna df) (columns_tolist (select_dtypes_number (dropna df))) = Inr df_numeric"
    "getitem_list df_numeric (butlast (columns_tolist (select_dtypes_number (dropna df)))) = Inr X"
    "getitem df_numeric (last (columns_tolist (select_dtypes_number (dropna df)))) = Inr y"
    "nrows X = nrows (dropna df)"
    by blast
  with read len rows err
  have "bind (train_test_split E X y 0.2 (Some 42))
          (\<lambda>(X_train, X_test, y_train, y_test).
            bind (fit E X_train y_train) (\<lambda>model.
            bind (predict model X_test) (\<lambda>y_pred.
            bind (r2_score y_test y_pred) (\<lambda>r2.
            bind (mean_absolute_error y_test y_pred) (\<lambda>mae.
            bind (mean_squared_error y_test y_pred) (\<lambda>mse.
              Inr \<lparr>res_r2_score = r2, res_mae = mae, res_mse = mse,
                   res_dataset_info =
                     \<lparr>total_rows = nrows df,
                      rows_after_cleaning = nrows (dropna df),
                      feature_columns = length (butlast (columns_tolist (select_dtypes_number (dropna df)))),
                      target_column = last (columns_tolist (select_dtypes_number (dropna df))),
                      feature_names = butlast (columns_tolist (select_dtypes_number (dropna df))),
                      train_size = nrows X_train,
                      test_size = nrows X_test\<rparr>\<rparr>)))))) = Inl e"
    by (simp add: process_csv_try_def Let_def len_def)
  then show ?thesis
    by (auto simp: bind_eq_Inl
        dest: lib_train_test_split lib_fit lib_predict lib_r2_score
          lib_mean_absolute_error lib_mean_squared_error)
qed

lemma try_success:
  assumes read: "read_csv E p = Inr df"
    and ok: "process_csv_try E p = Inr r"
  shows "2 \<le> length (columns_tolist (select_dtypes_number (dropna df))) \<and>
         10 \<le> nrows (dropna df) \<and>
         (\<exists>X y X_train X_test y_train y_test.
            nrows X = nrows (dropna df) \<and>
            train_test_split E X y 0.2 (Some 42) = Inr (X_train, X_test, y_train, y_test) \<and>
            res_dataset_info r =
              \<lparr>total_rows = nrows df,
               rows_after_cleaning = nrows (dropna df),
               feature_columns = length (butlast (columns_tolist (select_dtypes_number (dropna df)))),
               target_column = last (columns_tolist (select_dtypes_number (dropna df))),
               feature_names = butlast (columns_tolist (select_dtypes_number (dropna df))),
               train_size = nrows X_train,
               test_size = nrows X_test\<rparr>)"
proof -
  let ?nc = "columns_tolist (select_dtypes_number (dropna df))"
  have len: "2 \<le> length ?nc"
  proof (rule ccontr)
    assume "\<not> 2 \<le> length ?nc"
    then have "length ?nc < 2" by simp
    from try_gate_columns [OF read this] ok show False by simp
  qed
  have rows: "10 \<le> nrows (dropna df)"
  proof (rule ccontr)
    assume "\<not> 10 \<le> nrows (dropna df)"
    then have "nrows (dropna df) < 10" by simp
    from try_gate_samples [OF read len this] ok show False by simp
  qed
  from getitems_ok [OF refl len] obtain df_numeric X y where
    g: "getitem_list (dropna df) ?nc = Inr df_numeric"
    "getitem_list df_numeric (butlast ?nc) = Inr X"
    "getitem df_numeric (last ?nc) = Inr y"
    and nX: "nrows X = nrows (dropna df)"
    by blast
  from read len rows ok g nX
  have "\<exists>X_train X_test y_train y_test.
          train_test_split E X y 0.2 (Some 42) = Inr (X_train, X_test, y_train, y_test) \<and>
          res_dataset_info r =
              \<lparr>total_rows = nrows df,
               rows_after_cleaning = nrows (dropna df),
               feature_columns = length (butlast ?nc),
               target_column = last ?nc,
               feature_names = butlast ?nc,
               train_size = nrows X_train,
               test_size = nrows X_test\<rparr>"
    by (auto simp: process_csv_try_def Let_def len_def bind_eq_Inr)
  with len rows nX show ?thesis by blast
qed

subsection \<open>The split\<close>

lemma n_test_le: "nat \<lceil>0.2 * real n\<rceil> \<le> n"
proof -
  have "\<lceil>0.2 * real n\<rceil> \<le> int n"
    by (simp add: ceiling_le_iff)
  then show ?thesis by simp
qed

lemma n_test_div: "nat \<lceil>0.2 * real n\<rceil> = (n + 4) div 5"
proof -
  have "\<lceil>0.2 * real n\<rceil> = \<lceil>real_of_int (int n) / real_of_int 5\<rceil>"
    by simp
  also have "\<dots> = - (- int n div 5)"
    by (simp only: ceiling_divide_eq_div)
  also have "\<dots> = (int n + 4) div 5"
    by presburger
  finally have "\<lceil>0.2 * real n\<rceil> = int ((n + 4) div 5)"
    by (simp add: zdiv_int)
  then show ?thesis by simp
qed

lemma n_train_div: "(n::nat) - (n + 4) div 5 = (4 * n) div 5"
proof -
  have "5 * ((n + 4) div 5) \<le> n + 4" "n + 4 < 5 * ((n + 4) div 5) + 5"
    "5 * ((4 * n) div 5) \<le> 4 * n" "4 * n < 5 * ((4 * n) div 5) + 5"
    by (simp_all add: dividend_less_times_div)
  then show ?thesis by arith
qed

lemma n_train_floor: "n - nat \<lceil>0.2 * real n\<rceil> = nat \<lfloor>0.8 * real n\<rfloor>"
proof -
  have "\<lfloor>0.8 * real n\<rfloor> = \<lfloor>real_of_int (4 * int n) / real_of_int 5\<rfloor>"
    by simp
  also have "\<dots> = (4 * int n) div 5"
    by (simp only: floor_divide_of_int_eq)
  also have "\<dots> = int ((4 * n) div 5)"
    by (simp add: zdiv_int)
  finally have "nat \<lfloor>0.8 * real n\<rfloor> = (4 * n) div 5"
    by simp
  then show ?thesis
    by (simp only: n_test_div n_train_div)
qed

lemma shuffle_split_Inr:
  assumes "shuffle_split E n 0.2 (Some 42) = Inr (train, test)"
  shows "test = take (nat \<lceil>0.2 * real n\<rceil>) (RandomState E 42 n)"
    and "train = take (n - nat \<lceil>0.2 * real n\<rceil>) (drop (nat \<lceil>0.2 * real n\<rceil>) (RandomState E 42 n))"
  using assms
  by (auto simp: shuffle_split_def validate_shuffle_split_def check_random_state_def
      Let_def bind_eq_Inr split: if_splits)

lemma train_test_split_Inr:
  assumes "train_test_split E X y ts rs = Inr (X_train, X_test, y_train, y_test)"
  shows "\<exists>train test. shuffle_split E (nrows X) ts rs = Inr (train, test) \<and>
           nrows X_train = length train \<and> nrows X_test = length test"
  using assms
  by (auto simp: train_test_split_def bind_eq_Inr iloc_def len_def split: if_splits)

lemma split_partition:
  assumes perm: "mset p = mset [0..<n]" and k: "k \<le> n"
  shows "length (take k p) = k"
    and "length (take (n - k) (drop k p)) = n - k"
    and "set (take (n - k) (drop k p)) \<inter> set (take k p) = {}"
    and "set (take (n - k) (drop k p)) \<union> set (take k p) = {0..<n}"
    and "distinct (take (n - k) (drop k p))" and "distinct (take k p)"
proof -
  from perm have len: "length p = n"
    using mset_eq_length by fastforce
  from perm have dist: "distinct p"
    using mset_eq_imp_distinct_iff distinct_upt by blast
  from perm have set: "set p = {0..<n}"
    using mset_eq_setD by fastforce
  have rest: "take (n - k) (drop k p) = drop k p"
    using len by simp
  show "length (take k p) = k" using len k by simp
  show "length (take (n - k) (drop k p)) = n - k" using len by simp
  from dist have "distinct (take k p @ drop k p)" by simp
  then have "set (take k p) \<inter> set (drop k p) = {}" and "distinct (take k p)" "distinct (drop k p)"
    unfolding distinct_append by auto
  then show "set (take (n - k) (drop k p)) \<inter> set (take k p) = {}"
    and "distinct (take (n - k) (drop k p))" and "distinct (take k p)"
    unfolding rest by auto
  have "set (take k p) \<union> set (drop k p) = set p"
    by (metis append_take_drop_id set_append)
  then show "set (take (n - k) (drop k p)) \<union> set (take k p) = {0..<n}"
    unfolding rest using set by auto
qed

subsection \<open>Row labels\<close>

lemma getitem_list_index:
  assumes "getitem_list df labels = Inr X"
  shows "index X = index df"
  using assms by (auto simp: getitem_list_def split: list.splits)

lemma index_take_rows [simp]: "index (take_rows df ind) = map (\<lambda>i. index df ! i) ind"
  by (simp add: take_rows_def)

lemma distinct_map_nth:
  assumes "distinct L" and "distinct ind" and "\<forall>i\<in>set ind. i < length L"
  shows "distinct (map (\<lambda>i. L ! i) ind)"
proof -
  have "inj_on (\<lambda>i. L ! i) (set ind)"
    using assms(1,3) by (auto simp: inj_on_def nth_eq_iff_index_eq)
  with assms(2) show ?thesis by (simp add: distinct_map)
qed

lemma distinct_index_dropna:
  assumes "distinct (index df)"
  shows "distinct (index (dropna df))"
  unfolding dropna_def index_take_rows
  by (rule distinct_map_nth [OF assms]) (auto simp: nrows_def)

lemma train_test_split_rows:
  assumes "train_test_split E X y ts rs = Inr (X_train, X_test, y_train, y_test)"
  shows "\<exists>train test. shuffle_split E (nrows X) ts rs = Inr (train, test) \<and>
           X_train = take_rows X train \<and> X_test = take_rows X test \<and>
           y_train = take_pos train y \<and> y_test = take_pos test y"
  using assms
  by (auto simp: train_test_split_def bind_eq_Inr iloc_def iloc_col_def len_def split: if_splits)

lemma partition_labels:
  assumes dist: "distinct L" and len: "length L = n"
    and disj: "set train \<inter> set test = {}"
    and cover: "set train \<union> set test = {0..<n}"
    and dtrain: "distinct train" and dtest: "distinct test"
  shows "set (map (\<lambda>i. L ! i) train) \<inter> set (map (\<lambda>i. L ! i) test) = {}"
    and "set (map (\<lambda>i. L ! i) train) \<union> set (map (\<lambda>i. L ! i) test) = set L"
    and "distinct (map (\<lambda>i. L ! i) train)" and "distinct (map (\<lambda>i. L ! i) test)"
proof -
  from cover len have in_train: "\<forall>i\<in>set train. i < length L"
    and in_test: "\<forall>i\<in>set test. i < length L"
    by auto
  show "distinct (map (\<lambda>i. L ! i) train)"
    by (rule distinct_map_nth [OF dist dtrain in_train])
  show "distinct (map (\<lambda>i. L ! i) test)"
    by (rule distinct_map_nth [OF dist dtest in_test])
  show "set (map (\<lambda>i. L ! i) train) \<inter> set (map (\<lambda>i. L ! i) test) = {}"
  proof (rule ccontr)
    assume "set (map (\<lambda>i. L ! i) train) \<inter> set (map (\<lambda>i. L ! i) test) \<noteq> {}"
    then obtain i j where i: "i \<in> set train" and j: "j \<in> set test" and eq: "L ! i = L ! j"
      by auto
    from i j in_train in_test dist eq have "i = j"
      by (simp add: nth_eq_iff_index_eq)
    with i j disj show False by auto
  qed
  have "set (map (\<lambda>i. L ! i) train) \<union> set (map (\<lambda>i. L ! i) test) =
          (\<lambda>i. L ! i) ` (set train \<union> set test)"
    by auto
  also have "\<dots> = (\<lambda>i. L ! i) ` {0..<length L}"
    by (simp only: cover len)
  also have "\<dots> = set L"
    by (simp add: set_conv_nth image_def) (auto simp: Bex_def)
  finally show "set (map (\<lambda>i. L ! i) train) \<union> set (map (\<lambda>i. L ! i) test) = set L" .
qed

lemma col_length_take_pos [simp]: "col_length (take_pos ind c) = length ind"
  by (cases c) simp_all

lemma n_test_ge2: "10 \<le> n \<Longrightarrow> 2 \<le> nat \<lceil>0.2 * real n\<rceil>"
  unfolding n_test_div by simp

subsection \<open>The except clause and the metrics\<close>

lemma process_csv_Inr: "process_csv E p = Inr r \<longleftrightarrow> process_csv_try E p = Inr r"
  by (simp add: process_csv_def split: sum.splits)

lemma process_csv_Inl:
  "process_csv E p = Inl err \<longleftrightarrow>
     (\<exists>e. process_csv_try E p = Inl e \<and> err = Exception (''ML processing error: '' @ str e))"
  by (auto simp: process_csv_def split: sum.splits)

lemma success_read:
  assumes "process_csv E p = Inr r"
  shows "\<exists>df. read_csv E p = Inr df"
  using assms by (auto simp: process_csv_Inr process_csv_try_def bind_eq_Inr)

lemma those_map_Some [simp]: "those (map Some ys) = Some ys"
  by (induction ys) simp_all

lemma sum_sq_same: "sum_list (map2 (\<lambda>t p. (t - p)\<^sup>2) ys ys) = (0::real)"
  by (induction ys) simp_all

lemma sum_abs_same: "sum_list (map2 (\<lambda>p t. \<bar>p - t\<bar>) ys ys) = (0::real)"
  by (induction ys) simp_all

lemma check_reg_targets_same:
  "ys \<noteq> [] \<Longrightarrow> check_reg_targets (NumericCol (map Some ys)) ys = Inr (ys, ys)"
  by (simp add: check_reg_targets_def)

lemma metrics_perfect:
  assumes "ys \<noteq> []"
  shows "r2_score (NumericCol (map Some ys)) ys = Inr (if length ys < 2 then NaN else Float 1)"
    and "mean_absolute_error (NumericCol (map Some ys)) ys = Inr 0"
    and "mean_squared_error (NumericCol (map Some ys)) ys = Inr 0"
  using assms
  by (simp_all add: r2_score_def mean_absolute_error_def mean_squared_error_def
      check_reg_targets_same sum_sq_same sum_abs_same average_def)

subsection \<open>The example runs, evaluated\<close>

lemma upt11: "[0..<11] = [0,1,2,3,4,5,6,7,8,9,10]"
  by (simp add: upt_rec)

lemma dropna_df0: "dropna df0 = \<lparr>index = [0, 1, 2, 4, 5, 6, 7, 8, 9, 10], cols =
     [(''name'', ObjectCol (map Some [''a'', ''b'', ''c'', ''e'', ''f'', ''g'', ''h'', ''i'', ''j'', ''k''])),
      (''x'', NumericCol (map Some [0, 1, 2, 4, 5, 6, 7, 8, 9, 10])),
      (''y'', NumericCol (map Some [1, 3, 5, 9, 11, 13, 15, 17, 19, 21]))]\<rparr>"
  by (simp add: dropna_def df0_def take_rows_def nrows_def upt11)

lemma read_data: "read_csv E0 ''data.csv'' = Inr df0"
  by (simp add: E0_def)

lemmas pipeline_defs =
  process_csv_def process_csv_try_def len_def nrows_def select_dtypes_number_def columns_tolist_def
  getitem_list_def getitem_def train_test_split_def shuffle_split_def validate_shuffle_split_def
  check_random_state_def iloc_def iloc_col_def take_rows_def fit_def predict_def check_array_def
  r2_score_def mean_absolute_error_def mean_squared_error_def check_reg_targets_def average_def
  Let_def

lemma run_data: "process_csv E0 ''data.csv'' = Inr r0"
  by (simp add: pipeline_defs read_data dropna_df0 r0_def E0_def upt_rec power2_eq_square)
    (simp add: df0_def)

lemma read_twelve: "read_csv E0 ''twelve.csv'' = Inr df12"
  by (simp add: E0_def)

lemma read_small: "read_csv E0 ''small.csv'' = Inr df_small"
  by (simp add: E0_def)

lemma dropna_df12: "dropna df12 = \<lparr>index = [0, 1, 2, 3, 4, 5, 6, 7, 8, 9, 10, 11], cols =
     [(''a'', NumericCol (map Some [0, 1, 2, 3, 4, 5, 6, 7, 8, 9, 10, 11])),
      (''b'', NumericCol (map Some [1, 0, 1, 0, 1, 0, 1, 0, 1, 0, 1, 0])),
      (''c'', NumericCol (map Some [3, 3, 7, 7, 11, 11, 15, 15, 19, 19, 23, 23]))]\<rparr>"
  by (simp add: dropna_def df12_def take_rows_def nrows_def upt_rec)

lemma run_twelve: "process_csv E0 ''twelve.csv'' = Inr r12"
  by (simp add: pipeline_defs read_twelve dropna_df12 r12_def E0_def upt_rec power2_eq_square)
    (simp add: df12_def)

lemma dropna_df_small: "dropna df_small = \<lparr>index = [0, 1, 2], cols =
     [(''name'', ObjectCol [Some ''a'', Some ''b'', Some ''c'']),
      (''x'', NumericCol [Some 1, Some 2, Some 3])]\<rparr>"
  by (simp add: dropna_def df_small_def take_rows_def nrows_def upt_rec)

lemma run_small: "process_csv E0 ''small.csv'' =
  Inl (Exception ''ML processing error: Dataset must have at least 2 numeric columns for regression analysis'')"
  by (simp add: pipeline_defs read_small dropna_df_small)

lemma perm_E0: "mset (RandomState E0 42 n) = mset [0..<n]"
  by (simp add: E0_def)

subsection \<open>What a successful run has done\<close>

lemma success_split:
  assumes ok: "process_csv E p = Inr r"
  shows "\<exists>df train test.
           read_csv E p = Inr df \<and>
           2 \<le> length (columns_tolist (select_dtypes_number (dropna df))) \<and>
           10 \<le> nrows (dropna df) \<and>
           shuffle_split E (nrows (dropna df)) 0.2 (Some 42) = Inr (train, test) \<and>
           res_dataset_info r =
              \<lparr>total_rows = nrows df,
               rows_after_cleaning = nrows (dropna df),
               feature_columns = length (butlast (columns_tolist (select_dtypes_number (dropna df)))),
               target_column = last (columns_tolist (select_dtypes_number (dropna df))),
               feature_names = butlast (columns_tolist (select_dtypes_number (dropna df))),
               train_size = length train,
               test_size = length test\<rparr>"
proof -
  from success_read [OF ok] obtain df where read: "read_csv E p = Inr df" ..
  from ok have "process_csv_try E p = Inr r" by (simp add: process_csv_Inr)
  from try_success [OF read this] obtain X y X_train X_test y_train y_test where
    len: "2 \<le> length (columns_tolist (select_dtypes_number (dropna df)))"
    and rows: "10 \<le> nrows (dropna df)"
    and nX: "nrows X = nrows (dropna df)"
    and tts: "train_test_split E X y 0.2 (Some 42) = Inr (X_train, X_test, y_train, y_test)"
    and info: "res_dataset_info r =
              \<lparr>total_rows = nrows df,
               rows_after_cleaning = nrows (dropna df),
               feature_columns = length (butlast (columns_tolist (select_dtypes_number (dropna df)))),
               target_column = last (columns_tolist (select_dtypes_number (dropna df))),
               feature_names = butlast (columns_tolist (select_dtypes_number (dropna df))),
               train_size = nrows X_train,
               test_size = nrows X_test\<rparr>"
    by blast
  from train_test_split_Inr [OF tts] nX obtain train test where
    "shuffle_split E (nrows (dropna df)) 0.2 (Some 42) = Inr (train, test)"
    "nrows X_train = length train" "nrows X_test = length test"
    by auto
  with read len rows info show ?thesis by auto
qed

lemma n_test_10: "nat \<lceil>0.2 * real (10::nat)\<rceil> = 2"
  unfolding n_test_div by simp

lemma n_train_10: "nat \<lfloor>0.8 * real (10::nat)\<rfloor> = 8"
  unfolding n_train_floor [symmetric] n_test_div by simp

lemma numeric_columns_original:
  "columns_tolist (select_dtypes_number (dropna df)) =
     map fst (filter (\<lambda>(name, c). is_number c) (cols df))"
  unfolding numeric_dropna by (rule numeric_labels)

lemma read_csv_global_rng: "read_csv (E\<lparr>global_rng := g\<rparr>) = read_csv E"
  by simp

lemma shuffle_split_seeded:
  "shuffle_split (E\<lparr>global_rng := g\<rparr>) n ts (Some s) = shuffle_split E n ts (Some s)"
  by (simp add: shuffle_split_def check_random_state_def)

lemma train_test_split_seeded:
  "train_test_split (E\<lparr>global_rng := g\<rparr>) X y ts (Some s) = train_test_split E X y ts (Some s)"
  by (simp add: train_test_split_def shuffle_split_seeded)

lemma fit_global_rng: "fit (E\<lparr>global_rng := g\<rparr>) X y = fit E X y"
  by (simp add: fit_def)

lemma numeric_columns_df0:
  "columns_tolist (select_dtypes_number (dropna df0)) = [''x'', ''y'']"
  by (simp add: dropna_df0 select_dtypes_number_def columns_tolist_def)

lemma stage_numeric0:
  "getitem_list (dropna df0) (columns_tolist (select_dtypes_number (dropna df0))) = Inr df_numeric0"
  unfolding numeric_columns_df0
  by (simp add: dropna_df0 getitem_list_def columns_tolist_def df_numeric0_def)

lemma stage_X0:
  "getitem_list df_numeric0 (butlast (columns_tolist (select_dtypes_number (dropna df0)))) = Inr X0"
  unfolding numeric_columns_df0
  by (simp add: getitem_list_def columns_tolist_def df_numeric0_def X0_def)

lemma stage_y0:
  "getitem df_numeric0 (last (columns_tolist (select_dtypes_number (dropna df0)))) = Inr y0"
  unfolding numeric_columns_df0
  by (simp add: getitem_def df_numeric0_def y0_def)

lemma stage_split0:
  "train_test_split E0 X0 y0 0.2 (Some 42) = Inr (X_train0, X_test0, y_train0, y_test0)"
  by (simp add: train_test_split_def shuffle_split_def validate_shuffle_split_def
      check_random_state_def iloc_def iloc_col_def take_rows_def len_def nrows_def
      E0_def X0_def y0_def X_train0_def X_test0_def y_train0_def y_test0_def upt_rec)

lemma stage_fit0: "fit E0 X_train0 y_train0 = Inr ([2], 1)"
  by (simp add: fit_def check_array_def nrows_def E0_def X_train0_def y_train0_def upt_rec)

lemma stage_predict0: "predict ([2], 1) X_test0 = Inr [21, 19]"
  by (simp add: predict_def check_array_def nrows_def X_test0_def upt_rec)


lemma success_stages:
  assumes read: "read_csv E p = Inr df"
    and ok: "process_csv E p = Inr r"
  shows "\<exists>df_numeric X y X_train X_test y_train y_test model y_pred.
           getitem_list (dropna df) (columns_tolist (select_dtypes_number (dropna df))) =
             Inr df_numeric \<and>
           getitem_list df_numeric (butlast (columns_tolist (select_dtypes_number (dropna df)))) =
             Inr X \<and>
           getitem df_numeric (last (columns_tolist (select_dtypes_number (dropna df)))) = Inr y \<and>
           train_test_split E X y 0.2 (Some 42) = Inr (X_train, X_test, y_train, y_test) \<and>
           fit E X_train y_train = Inr model \<and>
           predict model X_test = Inr y_pred \<and>
           r2_score y_test y_pred = Inr (res_r2_score r) \<and>
           mean_absolute_error y_test y_pred = Inr (res_mae r) \<and>
           mean_squared_error y_test y_pred = Inr (res_mse r) \<and>
           rows_after_cleaning (res_dataset_info r) = nrows (dropna df) \<and>
           train_size (res_dataset_info r) = nrows X_train \<and>
           test_size (res_dataset_info r) = nrows X_test \<and>
           10 \<le> nrows (dropna df)"
proof -
  let ?nc = "columns_tolist (select_dtypes_number (dropna df))"
  from ok have run: "process_csv_try E p = Inr r" by (simp add: process_csv_Inr)
  from try_success [OF read run] have len: "2 \<le> length ?nc" and rows: "10 \<le> nrows (dropna df)"
    by blast+
  from getitems_ok [OF refl len] obtain df_numeric X y where
    g: "getitem_list (dropna df) ?nc = Inr df_numeric"
    "getitem_list df_numeric (butlast ?nc) = Inr X"
    "getitem df_numeric (last ?nc) = Inr y"
    and nX: "nrows X = nrows (dropna df)"
    by blast
  from read len rows run g nX
  have "\<exists>X_train X_test y_train y_test model y_pred.
           train_test_split E X y 0.2 (Some 42) = Inr (X_train, X_test, y_train, y_test) \<and>
           fit E X_train y_train = Inr model \<and>
           predict model X_test = Inr y_pred \<and>
           r2_score y_test y_pred = Inr (res_r2_score r) \<and>
           mean_absolute_error y_test y_pred = Inr (res_mae r) \<and>
           mean_squared_error y_test y_pred = Inr (res_mse r) \<and>
           rows_after_cleaning (res_dataset_info r) = nrows (dropna df) \<and>
           train_size (res_dataset_info r) = nrows X_train \<and>
           test_size (res_dataset_info r) = nrows X_test"
    by (auto simp: process_csv_try_def Let_def len_def bind_eq_Inr)
  with g rows show ?thesis by blast
qed

subsection \<open>The failing stage\<close>







section \<open>The claims\<close>

subsection \<open>Sizes of the split\<close>

text \<open>
  Claim C1, as the code has it. For a run that succeeds on \<open>n\<close> cleaned rows, with a
  generator whose \<open>permutation(n)\<close> is a permutation of \<open>0..<n\<close>, the test subset has
  \<open>ceil(0.2 * n)\<close> rows and the train subset the remaining \<open>n - ceil(0.2 * n)\<close> rows,
  which is \<open>floor(0.8 * n)\<close>.
\<close>

theorem split_sizes:
  assumes ok: "process_csv E p = Inr r"
    and n: "n = rows_after_cleaning (res_dataset_info r)"
    and perm: "mset (RandomState E 42 n) = mset [0..<n]"
  shows "test_size (res_dataset_info r) = nat \<lceil>0.2 * real n\<rceil> \<and>
         train_size (res_dataset_info r) = n - nat \<lceil>0.2 * real n\<rceil> \<and>
         train_size (res_dataset_info r) = nat \<lfloor>0.8 * real n\<rfloor>"
proof -
  from success_split [OF ok] obtain df train test where
    split: "shuffle_split E (nrows (dropna df)) 0.2 (Some 42) = Inr (train, test)"
    and info: "rows_after_cleaning (res_dataset_info r) = nrows (dropna df)"
      "train_size (res_dataset_info r) = length train"
      "test_size (res_dataset_info r) = length test"
    by fastforce
  from info n have n': "nrows (dropna df) = n" by simp
  note ss = shuffle_split_Inr [OF split [unfolded n']]
  note part = split_partition [OF perm n_test_le [of n]]
  have "length test = nat \<lceil>0.2 * real n\<rceil>"
    unfolding ss(1) by (rule part(1))
  moreover have "length train = n - nat \<lceil>0.2 * real n\<rceil>"
    unfolding ss(2) by (rule part(2))
  ultimately show ?thesis
    unfolding info n_train_floor [symmetric] by (intro conjI)
qed

theorem split_sizes_witness:
  "process_csv E0 ''data.csv'' = Inr r0 \<and>
   mset (RandomState E0 42 10) = mset [0..<10] \<and>
   test_size (res_dataset_info r0) = 2 \<and> train_size (res_dataset_info r0) = 8 \<and>
   nat \<lceil>0.2 * real (10::nat)\<rceil> = 2 \<and> nat \<lfloor>0.8 * real (10::nat)\<rfloor> = 8"
proof -
  have n: "10 = rows_after_cleaning (res_dataset_info r0)"
    by (simp add: r0_def)
  from split_sizes [OF run_data n perm_E0]
  have "test_size (res_dataset_info r0) = 2 \<and> train_size (res_dataset_info r0) = 8"
    unfolding n_test_10 n_train_10 by simp
  with run_data perm_E0 [of 10] n_test_10 n_train_10 show ?thesis
    by (intro conjI) (simp_all only:)
qed

text \<open>
  The train subset does not have \<open>round(n * 0.8)\<close> rows in general: with twelve rows,
  \<open>round(9.6)\<close> is 10 and the run reports 9 train rows (and 3 test rows).
\<close>

theorem split_round_counterexample:
  "process_csv E0 ''twelve.csv'' = Inr r12 \<and>
   mset (RandomState E0 42 12) = mset [0..<12] \<and>
   rows_after_cleaning (res_dataset_info r12) = 12 \<and>
   train_size (res_dataset_info r12) = 9 \<and>
   round (real (rows_after_cleaning (res_dataset_info r12)) * 0.8) = 10"
proof -
  have "round (12 * 0.8 :: real) = 10"
    by (simp add: round_def)
  moreover have "rows_after_cleaning (res_dataset_info r12) = 12"
    "train_size (res_dataset_info r12) = 9"
    by (simp_all add: r12_def)
  ultimately show ?thesis
    using run_twelve perm_E0 [of 12] by simp
qed

subsection \<open>The two validation gates\<close>

text \<open>
  Claim C2. Once the file is read, the pipeline fails with the message of the column gate
  if and only if fewer than two numeric columns remain in the cleaned table; with
  exactly two numeric columns this error is not raised.
\<close>

theorem insufficient_columns_iff:
  assumes "read_csv E p = Inr df"
  shows "process_csv E p =
           Inl (Exception ''ML processing error: Dataset must have at least 2 numeric columns for regression analysis'')
         \<longleftrightarrow> length (columns_tolist (select_dtypes_number (dropna df))) < 2"
proof (cases "length (columns_tolist (select_dtypes_number (dropna df))) < 2")
  case True
  from try_gate_columns [OF assms True] show ?thesis
    using True by (simp add: process_csv_def)
next
  case False
  then have len: "2 \<le> length (columns_tolist (select_dtypes_number (dropna df)))" by simp
  show ?thesis
  proof (cases "nrows (dropna df) < 10")
    case True
    from try_gate_samples [OF assms len True] show ?thesis
      using False by (simp add: process_csv_def)
  next
    case rows: False
    have "process_csv E p \<noteq>
      Inl (Exception ''ML processing error: Dataset must have at least 2 numeric columns for regression analysis'')"
    proof
      assume "process_csv E p =
        Inl (Exception ''ML processing error: Dataset must have at least 2 numeric columns for regression analysis'')"
      then obtain e where e: "process_csv_try E p = Inl e"
        and "str e = ''Dataset must have at least 2 numeric columns for regression analysis''"
        by (auto simp: process_csv_Inl)
      then have "hd (str e) = CHR ''D''" by simp
      moreover from rows have "10 \<le> nrows (dropna df)" by simp
      ultimately show False
        using try_library_error [OF assms len _ e] by blast
    qed
    with False show ?thesis by simp
  qed
qed

theorem insufficient_columns_iff_witness:
  "read_csv E0 ''data.csv'' = Inr df0 \<and>
   length (columns_tolist (select_dtypes_number (dropna df0))) = 2 \<and>
   process_csv E0 ''data.csv'' \<noteq> Inl (Exception ''ML processing error: Dataset must have at least 2 numeric columns for regression analysis'')"
proof -
  have two: "length (columns_tolist (select_dtypes_number (dropna df0))) = 2"
    by (simp add: dropna_df0 select_dtypes_number_def columns_tolist_def)
  then have "\<not> length (columns_tolist (select_dtypes_number (dropna df0))) < 2"
    by simp
  with insufficient_columns_iff [OF read_data]
  have "process_csv E0 ''data.csv'' \<noteq> Inl (Exception ''ML processing error: Dataset must have at least 2 numeric columns for regression analysis'')"
    by (simp only:) simp
  with read_data two show ?thesis by (intro conjI)
qed

text \<open>
  Claim C3, as the code has it. The row gate comes after the column gate, so the pipeline
  fails with the message of the row gate if and only if the cleaned table has at least
  two numeric columns and fewer than ten rows; with exactly ten cleaned rows this error
  is not raised.
\<close>

theorem insufficient_samples_iff:
  assumes "read_csv E p = Inr df"
  shows "process_csv E p =
           Inl (Exception ''ML processing error: Dataset must have at least 10 samples after cleaning'')
         \<longleftrightarrow> 2 \<le> length (columns_tolist (select_dtypes_number (dropna df))) \<and>
             nrows (dropna df) < 10"
proof (cases "length (columns_tolist (select_dtypes_number (dropna df))) < 2")
  case True
  from try_gate_columns [OF assms True] show ?thesis
    using True by (simp add: process_csv_def)
next
  case False
  then have len: "2 \<le> length (columns_tolist (select_dtypes_number (dropna df)))" by simp
  show ?thesis
  proof (cases "nrows (dropna df) < 10")
    case True
    from try_gate_samples [OF assms len True] show ?thesis
      using len True by (simp add: process_csv_def)
  next
    case rows: False
    have "process_csv E p \<noteq>
      Inl (Exception ''ML processing error: Dataset must have at least 10 samples after cleaning'')"
    proof
      assume "process_csv E p =
        Inl (Exception ''ML processing error: Dataset must have at least 10 samples after cleaning'')"
      then obtain e where e: "process_csv_try E p = Inl e"
        and "str e = ''Dataset must have at least 10 samples after cleaning''"
        by (auto simp: process_csv_Inl)
      then have "hd (str e) = CHR ''D''" by simp
      moreover from rows have "10 \<le> nrows (dropna df)" by simp
      ultimately show False
        using try_library_error [OF assms len _ e] by blast
    qed
    with rows show ?thesis by simp
  qed
qed

theorem insufficient_samples_iff_witness:
  "read_csv E0 ''data.csv'' = Inr df0 \<and>
   nrows (dropna df0) = 10 \<and>
   process_csv E0 ''data.csv'' \<noteq> Inl (Exception ''ML processing error: Dataset must have at least 10 samples after cleaning'')"
proof -
  have ten: "nrows (dropna df0) = 10"
    by (simp add: dropna_df0 nrows_def)
  then have "\<not> (2 \<le> length (columns_tolist (select_dtypes_number (dropna df0))) \<and>
                nrows (dropna df0) < 10)"
    by simp
  with insufficient_samples_iff [OF read_data]
  have "process_csv E0 ''data.csv'' \<noteq> Inl (Exception ''ML processing error: Dataset must have at least 10 samples after cleaning'')"
    by (simp only:) simp
  with read_data ten show ?thesis by (intro conjI)
qed

text \<open>
  Fewer than ten cleaned rows alone do not raise the error of the row gate: a table of
  three rows with one numeric column fails at the column gate.
\<close>

theorem insufficient_samples_counterexample:
  "read_csv E0 ''small.csv'' = Inr df_small \<and>
   nrows (dropna df_small) < 10 \<and>
   process_csv E0 ''small.csv'' \<noteq> Inl (Exception ''ML processing error: Dataset must have at least 10 samples after cleaning'')"
proof -
  have "nrows (dropna df_small) < 10"
    by (simp add: dropna_df_small nrows_def)
  moreover have "process_csv E0 ''small.csv'' \<noteq> Inl (Exception ''ML processing error: Dataset must have at least 10 samples after cleaning'')"
    unfolding run_small by simp
  ultimately show ?thesis using read_small by (intro conjI)
qed

subsection \<open>Column selection\<close>



subsection \<open>The partition\<close>

text \<open>
  Claim C5. In a successful run on a table whose rows have distinct labels, with a
  generator whose \<open>permutation(n)\<close> is a permutation of \<open>0..<n\<close>, the frames
  \<open>X_train\<close> and \<open>X_test\<close> that line 45 produces from the run's \<open>X\<close> and \<open>y\<close>,
  and that the run fits and scores, hold disjoint sets of row labels whose union is the
  set of the labels of all cleaned rows; they are the rows of \<open>X\<close> at two disjoint lists
  of positions that together hold every position \<open>0..<n\<close>, and \<open>y_train\<close> and
  \<open>y_test\<close> are the values of \<open>y\<close> at the same positions.
\<close>

theorem train_test_partition:
  assumes read: "read_csv E p = Inr df"
    and ok: "process_csv E p = Inr r"
    and n: "n = rows_after_cleaning (res_dataset_info r)"
    and perm: "mset (RandomState E 42 n) = mset [0..<n]"
    and labels: "distinct (index df)"
  shows "\<exists>df_numeric X y X_train X_test y_train y_test model y_pred train test.
           getitem_list (dropna df) (columns_tolist (select_dtypes_number (dropna df))) =
             Inr df_numeric \<and>
           getitem_list df_numeric (butlast (columns_tolist (select_dtypes_number (dropna df)))) =
             Inr X \<and>
           getitem df_numeric (last (columns_tolist (select_dtypes_number (dropna df)))) = Inr y \<and>
           train_test_split E X y 0.2 (Some 42) = Inr (X_train, X_test, y_train, y_test) \<and>
           fit E X_train y_train = Inr model \<and>
           predict model X_test = Inr y_pred \<and>
           r2_score y_test y_pred = Inr (res_r2_score r) \<and>
           X_train = take_rows X train \<and> X_test = take_rows X test \<and>
           y_train = take_pos train y \<and> y_test = take_pos test y \<and>
           set train \<inter> set test = {} \<and>
           set train \<union> set test = {0..<n} \<and>
           set (index X_train) \<inter> set (index X_test) = {} \<and>
           set (index X_train) \<union> set (index X_test) = set (index (dropna df)) \<and>
           distinct (index X_train) \<and> distinct (index X_test) \<and>
           nrows X_train = train_size (res_dataset_info r) \<and>
           nrows X_test = test_size (res_dataset_info r)"
proof -
  let ?nc = "columns_tolist (select_dtypes_number (dropna df))"
  from success_stages [OF read ok]
  obtain df_numeric X y X_train X_test y_train y_test model y_pred where
    g1: "getitem_list (dropna df) ?nc = Inr df_numeric"
    and g2: "getitem_list df_numeric (butlast ?nc) = Inr X"
    and g3: "getitem df_numeric (last ?nc) = Inr y"
    and tts: "train_test_split E X y 0.2 (Some 42) = Inr (X_train, X_test, y_train, y_test)"
    and rest: "fit E X_train y_train = Inr model" "predict model X_test = Inr y_pred"
      "r2_score y_test y_pred = Inr (res_r2_score r)"
    and info: "rows_after_cleaning (res_dataset_info r) = nrows (dropna df)"
      "train_size (res_dataset_info r) = nrows X_train"
      "test_size (res_dataset_info r) = nrows X_test"
    by (elim exE conjE)
  have iX: "index X = index (dropna df)"
    using getitem_list_index [OF g2] getitem_list_index [OF g1] by simp
  then have nX: "nrows X = n"
    using info(1) n by (simp add: nrows_def)
  from train_test_split_rows [OF tts] obtain train test where
    split: "shuffle_split E (nrows X) 0.2 (Some 42) = Inr (train, test)"
    and rows: "X_train = take_rows X train" "X_test = take_rows X test"
      "y_train = take_pos train y" "y_test = take_pos test y"
    by (elim exE conjE)
  note ss = shuffle_split_Inr [OF split [unfolded nX]]
  note part = split_partition [OF perm n_test_le [of n]]
  have pos: "set train \<inter> set test = {}" "set train \<union> set test = {0..<n}"
    "distinct train" "distinct test"
    unfolding ss by (rule part)+
  have dist: "distinct (index X)"
    unfolding iX by (rule distinct_index_dropna [OF labels])
  have len: "length (index X) = n"
    using nX by (simp add: nrows_def)
  note lab = partition_labels [OF dist len pos]
  have "set (index X_train) \<inter> set (index X_test) = {}"
    "set (index X_train) \<union> set (index X_test) = set (index (dropna df))"
    "distinct (index X_train)" "distinct (index X_test)"
    unfolding rows index_take_rows iX [symmetric] by (rule lab)+
  with g1 g2 g3 tts rest rows pos(1,2) info(2,3) show ?thesis
    by (intro exI conjI) (simp_all only:)
qed

theorem train_test_partition_witness:
  "read_csv E0 ''data.csv'' = Inr df0 \<and> process_csv E0 ''data.csv'' = Inr r0 \<and>
   mset (RandomState E0 42 10) = mset [0..<10] \<and> distinct (index df0) \<and>
   train_test_split E0 X0 y0 0.2 (Some 42) = Inr (X_train0, X_test0, y_train0, y_test0) \<and>
   set (index X_train0) \<inter> set (index X_test0) = {} \<and>
   set (index X_train0) \<union> set (index X_test0) = set (index (dropna df0)) \<and>
   index X_train0 = [8, 7, 6, 5, 4, 2, 1, 0] \<and> index X_test0 = [10, 9]"
proof -
  have n: "10 = rows_after_cleaning (res_dataset_info r0)"
    by (simp add: r0_def)
  have labels: "distinct (index df0)"
    by (simp add: df0_def)
  from train_test_partition [OF read_data run_data n perm_E0 labels]
  obtain df_numeric X y X_train X_test y_train y_test where
    "getitem_list (dropna df0) (columns_tolist (select_dtypes_number (dropna df0))) =
       Inr df_numeric"
    "getitem_list df_numeric (butlast (columns_tolist (select_dtypes_number (dropna df0)))) =
       Inr X"
    "getitem df_numeric (last (columns_tolist (select_dtypes_number (dropna df0)))) = Inr y"
    "train_test_split E0 X y 0.2 (Some 42) = Inr (X_train, X_test, y_train, y_test)"
    and part: "set (index X_train) \<inter> set (index X_test) = {}"
      "set (index X_train) \<union> set (index X_test) = set (index (dropna df0))"
    by (elim exE conjE)
  then have "df_numeric = df_numeric0"
    by (simp only: stage_numeric0 sum.inject)
  with \<open>getitem_list df_numeric _ = Inr X\<close> \<open>getitem df_numeric _ = Inr y\<close>
  have "X = X0" "y = y0"
    by (simp_all only: stage_X0 stage_y0 sum.inject)
  with \<open>train_test_split E0 X y 0.2 (Some 42) = Inr (X_train, X_test, y_train, y_test)\<close>
  have "X_train = X_train0" "X_test = X_test0"
    by (simp_all only: stage_split0 sum.inject prod.inject)
  with part have "set (index X_train0) \<inter> set (index X_test0) = {}"
    "set (index X_train0) \<union> set (index X_test0) = set (index (dropna df0))"
    by (simp_all only:)
  moreover have "index X_train0 = [8, 7, 6, 5, 4, 2, 1, 0]" "index X_test0 = [10, 9]"
    by (simp_all add: X_train0_def X_test0_def)
  ultimately show ?thesis
    using read_data run_data perm_E0 [of 10] labels stage_split0 by (intro conjI)
qed

subsection \<open>Determinism\<close>

text \<open>
  Claim C6. The split is seeded with 42, so neither the result of the pipeline nor the
  partition depends on the state of numpy's global generator: two runs on the same file
  give the same partition and the same record, whatever that state is.
\<close>

theorem deterministic:
  "process_csv (E\<lparr>global_rng := g\<rparr>) p = process_csv E p \<and>
   shuffle_split (E\<lparr>global_rng := g\<rparr>) n 0.2 (Some 42) = shuffle_split E n 0.2 (Some 42)"
  unfolding process_csv_def process_csv_try_def train_test_split_seeded fit_global_rng
    shuffle_split_seeded read_csv_global_rng
  by (intro conjI refl)

subsection \<open>Perfect predictions\<close>

text \<open>
  Claim C7. In every successful run, with a generator whose \<open>permutation(n)\<close> is a
  permutation of \<open>0..<n\<close>, if every prediction equals the actual value of its test row,
  then the metrics of lines 57 to 59 put into the record are R2 = 1, MAE = 0 and MSE = 0.
  The vectors that reach the metrics are never empty: they have at least two rows.
\<close>

theorem perfect_prediction_metrics:
  assumes read: "read_csv E p = Inr df"
    and numeric: "getitem_list (dropna df) (columns_tolist (select_dtypes_number (dropna df))) =
                    Inr df_numeric"
    and features: "getitem_list df_numeric
                     (butlast (columns_tolist (select_dtypes_number (dropna df)))) = Inr X"
    and target: "getitem df_numeric (last (columns_tolist (select_dtypes_number (dropna df)))) =
                   Inr y"
    and split: "train_test_split E X y 0.2 (Some 42) = Inr (X_train, X_test, y_train, y_test)"
    and fitted: "fit E X_train y_train = Inr model"
    and predicted: "predict model X_test = Inr y_pred"
    and ok: "process_csv E p = Inr r"
    and n: "n = rows_after_cleaning (res_dataset_info r)"
    and perm: "mset (RandomState E 42 n) = mset [0..<n]"
    and perfect: "y_test = NumericCol (map Some y_pred)"
  shows "r2_score y_test y_pred = Inr (Float 1) \<and>
         mean_absolute_error y_test y_pred = Inr 0 \<and>
         mean_squared_error y_test y_pred = Inr 0 \<and>
         res_r2_score r = Float 1 \<and> res_mae r = 0 \<and> res_mse r = 0 \<and>
         2 \<le> length y_pred"
proof -
  let ?nc = "columns_tolist (select_dtypes_number (dropna df))"
  from success_stages [OF read ok]
  obtain df_numeric' X' y' X_train' X_test' y_train' y_test' model' y_pred' where
    g1: "getitem_list (dropna df) ?nc = Inr df_numeric'"
    and g2: "getitem_list df_numeric' (butlast ?nc) = Inr X'"
    and g3: "getitem df_numeric' (last ?nc) = Inr y'"
    and tts: "train_test_split E X' y' 0.2 (Some 42) = Inr (X_train', X_test', y_train', y_test')"
    and f: "fit E X_train' y_train' = Inr model'"
    and pr: "predict model' X_test' = Inr y_pred'"
    and m: "r2_score y_test' y_pred' = Inr (res_r2_score r)"
      "mean_absolute_error y_test' y_pred' = Inr (res_mae r)"
      "mean_squared_error y_test' y_pred' = Inr (res_mse r)"
    and info: "rows_after_cleaning (res_dataset_info r) = nrows (dropna df)"
    and rows: "10 \<le> nrows (dropna df)"
    by (elim exE conjE)
  from g1 numeric have "df_numeric' = df_numeric" by simp
  with g2 g3 features target have "X' = X" "y' = y" by simp_all
  with tts split have "X_train' = X_train" "X_test' = X_test" "y_train' = y_train" "y_test' = y_test"
    by simp_all
  with f pr fitted predicted have "y_pred' = y_pred" by simp
  note m' = m [unfolded \<open>y_test' = y_test\<close> \<open>y_pred' = y_pred\<close> perfect]
  have iX: "index X = index (dropna df)"
    using getitem_list_index [OF features] getitem_list_index [OF numeric] by simp
  then have nX: "nrows X = n"
    using info n by (simp add: nrows_def)
  from rows info n have n10: "10 \<le> n" by simp
  from train_test_split_rows [OF split] obtain train test where
    sp: "shuffle_split E (nrows X) 0.2 (Some 42) = Inr (train, test)"
    and yt: "y_test = take_pos test y"
    by (elim exE conjE)
  note ss = shuffle_split_Inr [OF sp [unfolded nX]]
  have "length test = nat \<lceil>0.2 * real n\<rceil>"
    unfolding ss(1) by (rule split_partition(1) [OF perm n_test_le])
  with n_test_ge2 [OF n10] have "2 \<le> length test" by (simp only:)
  moreover have "col_length y_test = length test"
    unfolding yt by simp
  moreover have "col_length y_test = length y_pred"
    unfolding perfect by simp
  ultimately have two: "2 \<le> length y_pred" by simp
  then have ne: "y_pred \<noteq> []" by auto
  from two have "\<not> length y_pred < 2" by simp
  with metrics_perfect [OF ne] m' two show ?thesis
    unfolding perfect by simp
qed

theorem perfect_prediction_metrics_witness:
  "read_csv E0 ''data.csv'' = Inr df0 \<and>
   getitem_list (dropna df0) (columns_tolist (select_dtypes_number (dropna df0))) =
     Inr df_numeric0 \<and>
   getitem_list df_numeric0 (butlast (columns_tolist (select_dtypes_number (dropna df0)))) =
     Inr X0 \<and>
   getitem df_numeric0 (last (columns_tolist (select_dtypes_number (dropna df0)))) = Inr y0 \<and>
   train_test_split E0 X0 y0 0.2 (Some 42) = Inr (X_train0, X_test0, y_train0, y_test0) \<and>
   fit E0 X_train0 y_train0 = Inr ([2], 1) \<and>
   predict ([2], 1) X_test0 = Inr [21, 19] \<and>
   process_csv E0 ''data.csv'' = Inr r0 \<and>
   mset (RandomState E0 42 10) = mset [0..<10] \<and>
   y_test0 = NumericCol (map Some [21, 19]) \<and>
   res_r2_score r0 = Float 1 \<and> res_mae r0 = 0 \<and> res_mse r0 = 0"
proof -
  have n: "10 = rows_after_cleaning (res_dataset_info r0)"
    by (simp add: r0_def)
  have perfect: "y_test0 = NumericCol (map Some [21, 19])"
    by (simp add: y_test0_def)
  from perfect_prediction_metrics [OF read_data stage_numeric0 stage_X0 stage_y0 stage_split0
      stage_fit0 stage_predict0 run_data n perm_E0 perfect]
  have "res_r2_score r0 = Float 1 \<and> res_mae r0 = 0 \<and> res_mse r0 = 0"
    by (elim conjE) (intro conjI)
  with read_data stage_numeric0 stage_X0 stage_y0 stage_split0 stage_fit0 stage_predict0
    run_data perm_E0 [of 10] perfect
  show ?thesis by (intro conjI) (elim conjE; assumption)+
qed

subsection \<open>Errors\<close>




subsection \<open>The result record\<close>

text \<open>
  Claim C9. In a successful run, with a generator whose \<open>permutation(n)\<close> is a
  permutation of \<open>0..<n\<close>, \<open>train_size + test_size\<close> is \<open>rows_after_cleaning\<close>, and
  \<open>rows_after_cleaning\<close> is at most \<open>total_rows\<close>.
\<close>

theorem sizes_add_up:
  assumes ok: "process_csv E p = Inr r"
    and n: "n = rows_after_cleaning (res_dataset_info r)"
    and perm: "mset (RandomState E 42 n) = mset [0..<n]"
  shows "train_size (res_dataset_info r) + test_size (res_dataset_info r) =
           rows_after_cleaning (res_dataset_info r) \<and>
         rows_after_cleaning (res_dataset_info r) \<le> total_rows (res_dataset_info r)"
proof -
  from success_split [OF ok] obtain df train test where
    split: "shuffle_split E (nrows (dropna df)) 0.2 (Some 42) = Inr (train, test)"
    and info: "rows_after_cleaning (res_dataset_info r) = nrows (dropna df)"
      "total_rows (res_dataset_info r) = nrows df"
      "train_size (res_dataset_info r) = length train"
      "test_size (res_dataset_info r) = length test"
    by fastforce
  from info n have n': "nrows (dropna df) = n" by simp
  note ss = shuffle_split_Inr [OF split [unfolded n']]
  note part = split_partition [OF perm n_test_le [of n]]
  have "length test = nat \<lceil>0.2 * real n\<rceil>"
    unfolding ss(1) by (rule part(1))
  moreover have "length train = n - nat \<lceil>0.2 * real n\<rceil>"
    unfolding ss(2) by (rule part(2))
  ultimately have "length train + length test = n"
    using n_test_le [of n] by simp
  with info n' nrows_dropna_le [of df] show ?thesis by simp
qed

theorem sizes_add_up_witness:
  "process_csv E0 ''data.csv'' = Inr r0 \<and>
   mset (RandomState E0 42 10) = mset [0..<10] \<and>
   train_size (res_dataset_info r0) + test_size (res_dataset_info r0) = 10 \<and>
   rows_after_cleaning (res_dataset_info r0) = 10 \<and> total_rows (res_dataset_info r0) = 11"
proof -
  have n: "10 = rows_after_cleaning (res_dataset_info r0)"
    by (simp add: r0_def)
  from sizes_add_up [OF run_data n perm_E0] run_data perm_E0 [of 10]
  show ?thesis by (simp add: r0_def)
qed

text \<open>
  Claim C10. In a successful run on a table with unique column labels, the target column
  is not among the feature names, \<open>feature_columns\<close> is the number of feature names,
  and there is at least one feature.
\<close>

theorem target_not_feature:
  assumes read: "read_csv E p = Inr df"
    and ok: "process_csv E p = Inr r"
    and uniq: "distinct (columns_tolist df)"
  shows "target_column (res_dataset_info r) \<notin> set (feature_names (res_dataset_info r)) \<and>
         feature_columns (res_dataset_info r) = length (feature_names (res_dataset_info r)) \<and>
         1 \<le> feature_columns (res_dataset_info r)"
proof -
  let ?nc = "columns_tolist (select_dtypes_number (dropna df))"
  from success_split [OF ok] read have len: "2 \<le> length ?nc"
    and info: "feature_names (res_dataset_info r) = butlast ?nc"
      "target_column (res_dataset_info r) = last ?nc"
      "feature_columns (res_dataset_info r) = length (butlast ?nc)"
    by auto
  have "?nc = map fst (filter (\<lambda>(name, c). is_number c) (cols df))"
    by (rule numeric_columns_original)
  moreover from uniq have "distinct (map fst (filter (\<lambda>(name, c). is_number c) (cols df)))"
    unfolding columns_tolist_def by (rule distinct_map_filter)
  ultimately have "distinct ?nc" by simp
  moreover from len have "?nc \<noteq> []" by auto
  ultimately have "distinct (butlast ?nc @ [last ?nc])" by simp
  then have "last ?nc \<notin> set (butlast ?nc)" by simp
  with info len show ?thesis by simp
qed

theorem target_not_feature_witness:
  "read_csv E0 ''data.csv'' = Inr df0 \<and> process_csv E0 ''data.csv'' = Inr r0 \<and>
   distinct (columns_tolist df0) \<and>
   target_column (res_dataset_info r0) = ''y'' \<and>
   feature_names (res_dataset_info r0) = [''x''] \<and>
   feature_columns (res_dataset_info r0) = 1"
proof -
  have uniq: "distinct (columns_tolist df0)"
    by (simp add: columns_tolist_def df0_def)
  from target_not_feature [OF read_data run_data uniq] read_data run_data uniq
  show ?thesis by (simp add: r0_def)
qed

end
